theory Spec2Isabelle
  imports Main "HOL-Library.Sublist" "HOL-Library.AList"
begin

section \<open>The browser platform, as far as the client observes it\<close>

subsection \<open>Strings\<close>

text \<open>
  A JavaScript string is modelled as a \<^typ>\<open>string\<close> whose characters are the code units
  U+0000 .. U+00FF. On that range the library functions below are written out as ECMAScript
  defines them. Code units above U+00FF are outside the model.
\<close>

definition isWhiteSpace :: "char \<Rightarrow> bool" where
  \<comment> \<open>ECMAScript WhiteSpace and LineTerminator below U+0100: TAB, LF, VT, FF, CR, SP, NBSP.\<close>
  "isWhiteSpace c = (of_char c \<in> set [9, 10, 11, 12, 13, 32, 160 :: nat])"

definition trim :: "string \<Rightarrow> string" where
  \<comment> \<open>\<open>String.prototype.trim\<close>\<close>
  "trim s = rev (dropWhile isWhiteSpace (rev (dropWhile isWhiteSpace s)))"

definition lower_char :: "char \<Rightarrow> char" where
  "lower_char c =
     (let n = (of_char c :: nat)
      in if (65 \<le> n \<and> n \<le> 90) \<or> (192 \<le> n \<and> n \<le> 222 \<and> n \<noteq> 215)
         then char_of (n + 32) else c)"

definition toLowerCase :: "string \<Rightarrow> string" where
  \<comment> \<open>\<open>String.prototype.toLowerCase\<close>\<close>
  "toLowerCase s = map lower_char s"

definition endsWith :: "string \<Rightarrow> string \<Rightarrow> bool" where
  \<comment> \<open>\<open>s.endsWith(d)\<close>: the last \<open>length d\<close> code units of \<open>s\<close> are \<open>d\<close>.\<close>
  "endsWith s d = (length d \<le> length s \<and> drop (length s - length d) s = d)"

fun split_on :: "char \<Rightarrow> string \<Rightarrow> string \<Rightarrow> string list" where
  "split_on sep acc [] = [rev acc]"
| "split_on sep acc (c # cs) =
     (if c = sep then rev acc # split_on sep [] cs else split_on sep (c # acc) cs)"

definition split :: "string \<Rightarrow> char \<Rightarrow> string list" where
  \<comment> \<open>\<open>s.split(sep)\<close> for a separator of one code unit; \<open>''''.split('','')\<close> is \<open>['''']\<close>.\<close>
  "split s sep = split_on sep [] s"

definition digit_char :: "nat \<Rightarrow> char" where
  "digit_char d = char_of (48 + d)"

fun decimal :: "nat \<Rightarrow> string" where
  "decimal n = (if n < 10 then [digit_char n] else decimal (n div 10) @ [digit_char (n mod 10)])"

declare decimal.simps [simp del]

definition isSafeInteger :: "int \<Rightarrow> bool" where
  \<comment> \<open>\<open>Number.isSafeInteger\<close>: at most \<open>Number.MAX_SAFE_INTEGER\<close> = 2^53 - 1 in magnitude\<close>
  "isSafeInteger i = (\<bar>i\<bar> \<le> 9007199254740991)"

definition Number_toString :: "int \<Rightarrow> string" where
  \<comment> \<open>\<open>Number.prototype.toString\<close> on a safe integer: its decimal digits. Beyond the safe
     integers a number prints with its shortest round-trip digits, and from 10^21 in
     exponent form; neither is modelled.\<close>
  "Number_toString i = (if i < 0 then CHR ''-'' # decimal (nat (- i)) else decimal (nat i))"

definition hex_char :: "nat \<Rightarrow> char" where
  "hex_char d = (if d < 10 then char_of (48 + d) else char_of (55 + d))"

definition percent_byte :: "nat \<Rightarrow> string" where
  "percent_byte b = [CHR ''%'', hex_char (b div 16), hex_char (b mod 16)]"

definition percent_utf8 :: "char \<Rightarrow> string" where
  \<comment> \<open>the UTF-8 bytes of a code unit below U+0100, each percent-encoded\<close>
  "percent_utf8 c =
     (let n = (of_char c :: nat)
      in if n < 128 then percent_byte n
         else percent_byte (192 + n div 64) @ percent_byte (128 + n mod 64))"

definition isAlphaNum :: "char \<Rightarrow> bool" where
  "isAlphaNum c =
     (let n = (of_char c :: nat)
      in (48 \<le> n \<and> n \<le> 57) \<or> (65 \<le> n \<and> n \<le> 90) \<or> (97 \<le> n \<and> n \<le> 122))"

definition encodeURIComponent :: "string \<Rightarrow> string" where
  \<comment> \<open>unreserved: letters, digits and \<open>- _ . ! ~ * ' ( )\<close>\<close>
  "encodeURIComponent s =
     concat (map (\<lambda>c. if isAlphaNum c \<or> c \<in> set ''-_.!~*'()'' then [c] else percent_utf8 c) s)"

definition form_urlencode :: "string \<Rightarrow> string" where
  \<comment> \<open>the application/x-www-form-urlencoded byte serialiser used by \<open>URLSearchParams\<close>\<close>
  "form_urlencode s =
     concat (map (\<lambda>c. if isAlphaNum c \<or> c \<in> set ''*-._'' then [c]
                       else if c = CHR '' '' then ''+'' else percent_utf8 c) s)"

fun join_amp :: "string list \<Rightarrow> string" where
  "join_amp [] = []"
| "join_amp [x] = x"
| "join_amp (x # y # ys) = x @ ''&'' @ join_amp (y # ys)"

definition URLSearchParams_toString :: "(string \<times> string) list \<Rightarrow> string" where
  "URLSearchParams_toString ps =
     join_amp (map (\<lambda>(k, v). form_urlencode k @ ''='' @ form_urlencode v) ps)"

subsection \<open>JSON values\<close>

text \<open>
  The value \<open>response.json()\<close> resolves to. An object is the list of its own properties in
  property order (the first binding of a name is the property); \<open>JNum\<close> holds an integral
  number, rendered as \<open>Number_toString\<close> describes. \<open>undefined\<close> is not a JSON value: an expression that may be \<open>undefined\<close> has type
  \<^typ>\<open>'a option\<close> with \<open>None\<close> for \<open>undefined\<close>.
\<close>

datatype json =
    JNull
  | JBool bool
  | JNum int
  | JStr string
  | JArr "json list"
  | JObj "(string \<times> json) list"

datatype js_error =
    Error string
  | TypeError string
  | SyntaxError string

fun message :: "js_error \<Rightarrow> string" where
  "message (Error m) = m"
| "message (TypeError m) = m"
| "message (SyntaxError m) = m"

fun truthy :: "json option \<Rightarrow> bool" where
  "truthy None = False"
| "truthy (Some JNull) = False"
| "truthy (Some (JBool b)) = b"
| "truthy (Some (JNum n)) = (n \<noteq> 0)"
| "truthy (Some (JStr s)) = (s \<noteq> [])"
| "truthy (Some (JArr xs)) = True"
| "truthy (Some (JObj kvs)) = True"

fun join_comma :: "string list \<Rightarrow> string" where
  "join_comma [] = []"
| "join_comma [x] = x"
| "join_comma (x # y # ys) = x @ '','' @ join_comma (y # ys)"

fun ToString :: "json \<Rightarrow> string" where
  \<comment> \<open>the conversion applied by \<open>localStorage.setItem\<close>, \<open>new Error\<close> and template literals\<close>
  "ToString JNull = ''null''"
| "ToString (JBool b) = (if b then ''true'' else ''false'')"
| "ToString (JNum n) = Number_toString n"
| "ToString (JStr s) = s"
| "ToString (JArr xs) = join_comma (map (\<lambda>x. if x = JNull then [] else ToString x) xs)"
| "ToString (JObj kvs) = ''[object Object]''"

fun own_prop :: "json \<Rightarrow> string \<Rightarrow> json option" where
  \<comment> \<open>\<open>v.name\<close> on a value that is not \<open>null\<close>, for a name that no prototype defines\<close>
  "own_prop (JObj kvs) name = map_of kvs name"
| "own_prop v name = None"

definition null_read :: "string \<Rightarrow> js_error" where
  \<comment> \<open>what reading a property of \<open>null\<close> throws (the message in V8's wording)\<close>
  "null_read name = TypeError (''Cannot read properties of null (reading '' @ [CHR 0x27] @ name @ [CHR 0x27] @ '')'')"

definition get_prop :: "json \<Rightarrow> string \<Rightarrow> js_error + json option" where
  \<comment> \<open>\<open>v.name\<close>\<close>
  "get_prop v name = (if v = JNull then Inl (null_read name) else Inr (own_prop v name))"

definition opt_prop :: "json option \<Rightarrow> string \<Rightarrow> json option" where
  \<comment> \<open>\<open>v?.name\<close>\<close>
  "opt_prop v name =
     (case v of None \<Rightarrow> None | Some JNull \<Rightarrow> None | Some x \<Rightarrow> own_prop x name)"

fun index0 :: "json \<Rightarrow> json option" where
  \<comment> \<open>\<open>v[0]\<close> on a value that is not \<open>null\<close>\<close>
  "index0 (JArr []) = None"
| "index0 (JArr (x # xs)) = Some x"
| "index0 (JObj kvs) = map_of kvs ''0''"
| "index0 (JStr []) = None"
| "index0 (JStr (c # cs)) = Some (JStr [c])"
| "index0 v = None"

definition opt_index0 :: "json option \<Rightarrow> json option" where
  \<comment> \<open>\<open>v?.[0]\<close>\<close>
  "opt_index0 v = (case v of None \<Rightarrow> None | Some JNull \<Rightarrow> None | Some x \<Rightarrow> index0 x)"

subsection \<open>Storage and network\<close>

record request =
  req_url :: string
  req_method :: string
  req_headers :: "(string \<times> string) list"
  req_body :: "string option"

record response =
  status :: nat
  json_result :: "js_error + json"   \<comment> \<open>what \<open>await response.json()\<close> gives or throws\<close>

definition ok :: "response \<Rightarrow> bool" where
  \<comment> \<open>\<open>response.ok\<close>: the status is in the range 200-299\<close>
  "ok r = (200 \<le> status r \<and> status r \<le> 299)"

text \<open>
  The platform: \<open>fetch\<close> answers a request with a response or throws (a transport
  failure), and \<open>JSON.stringify\<close> and \<open>JSON.parse\<close> are the browser's. The answer
  depends on the request alone: no operation of the client issues the same request twice.
\<close>

record platform =
  fetch :: "request \<Rightarrow> js_error + response"
  JSON_stringify :: "json \<Rightarrow> string"
  JSON_parse :: "string \<Rightarrow> js_error + json"

text \<open>
  The state the client works on: the entries of \<open>localStorage\<close>, and the requests issued
  so far, oldest first.
\<close>

record world =
  localStorage :: "string \<rightharpoonup> string"
  requests :: "request list"

definition getItem :: "world \<Rightarrow> string \<Rightarrow> string option" where
  "getItem w k = localStorage w k"

definition setItem :: "string \<Rightarrow> string \<Rightarrow> world \<Rightarrow> world" where
  "setItem k v w = w\<lparr>localStorage := (localStorage w)(k \<mapsto> v)\<rparr>"

definition removeItem :: "string \<Rightarrow> world \<Rightarrow> world" where
  "removeItem k w = w\<lparr>localStorage := (localStorage w)(k := None)\<rparr>"

definition do_fetch :: "platform \<Rightarrow> request \<Rightarrow> world \<Rightarrow> (js_error + response) \<times> world" where
  \<comment> \<open>\<open>await fetch(url, init)\<close>: the request is issued and recorded\<close>
  "do_fetch env rq w = (fetch env rq, w\<lparr>requests := requests w @ [rq]\<rparr>)"

fun truthy_str :: "string option \<Rightarrow> bool" where
  \<comment> \<open>truthiness of what \<open>localStorage.getItem\<close> returns: \<open>null\<close> and \<open>''''\<close> are falsy\<close>
  "truthy_str None = False"
| "truthy_str (Some s) = (s \<noteq> [])"

definition js_and :: "string option \<Rightarrow> string option \<Rightarrow> string option" where
  \<comment> \<open>\<open>a && b\<close>\<close>
  "js_and a b = (if truthy_str a then b else a)"

section \<open>config.js\<close>

definition BASE_URL :: string where
  "BASE_URL = ''https://v2.api.noroff.dev''"

definition ENDPOINT_REGISTER :: string where
  "ENDPOINT_REGISTER = ''/auth/register''"

definition ENDPOINT_LOGIN :: string where
  "ENDPOINT_LOGIN = ''/auth/login''"

definition ENDPOINT_PROFILE :: string where
  "ENDPOINT_PROFILE = ''/auth/profile''"

definition ENDPOINT_POSTS :: string where
  "ENDPOINT_POSTS = ''/social/posts''"

definition ENDPOINT_PROFILES :: string where
  "ENDPOINT_PROFILES = ''/social/profiles''"

definition ENDPOINT_API_KEY :: string where
  "ENDPOINT_API_KEY = ''/auth/create-api-key''"

definition HEADERS :: "(string \<times> string) list" where
  "HEADERS = [(''Content-Type'', ''application/json'')]"

definition getAuthHeaders :: "world \<Rightarrow> (string \<times> string) list" where
  "getAuthHeaders w =
     (let token = getItem w ''authToken'';
          apiKey = getItem w ''apiKey'';
          headers = HEADERS;
          headers = (case token of
                       None \<Rightarrow> headers
                     | Some t \<Rightarrow> if truthy_str (Some t)
                                then AList.update ''Authorization'' (''Bearer '' @ t) headers
                                else headers);
          headers = (case apiKey of
                       None \<Rightarrow> headers
                     | Some k \<Rightarrow> if truthy_str (Some k)
                                then AList.update ''X-Noroff-API-Key'' k headers
                                else headers)
      in headers)"

definition buildApiUrl :: "string \<Rightarrow> string" where
  "buildApiUrl endpoint = BASE_URL @ endpoint"


section \<open>api/auth.js: the authentication service\<close>

text \<open>
  The service is in the repository in two versions: the file \<open>js/api/auth.js\<close>, and a later
  text of the same class that adds \<open>ensureApiKey\<close>.
\<close>

record credentials =
  email :: string
  password :: string

definition first_error_message :: "json \<Rightarrow> js_error + json option" where
  \<comment> \<open>\<open>data.errors?.[0]?.message\<close>\<close>
  "first_error_message data =
     (case get_prop data ''errors'' of
        Inl e \<Rightarrow> Inl e
      | Inr errors \<Rightarrow> Inr (opt_prop (opt_index0 errors) ''message''))"

definition or_else :: "json option \<Rightarrow> string \<Rightarrow> string" where
  \<comment> \<open>the message of \<open>new Error(v || fallback)\<close>\<close>
  "or_else v fallback = (case v of None \<Rightarrow> fallback
                         | Some x \<Rightarrow> if truthy (Some x) then ToString x else fallback)"

definition stringify_opt :: "platform \<Rightarrow> json option \<Rightarrow> string" where
  \<comment> \<open>the string \<open>setItem\<close> stores for \<open>JSON.stringify(v)\<close>, also when \<open>v\<close> is \<open>undefined\<close>\<close>
  "stringify_opt env v = (case v of None \<Rightarrow> ''undefined'' | Some x \<Rightarrow> JSON_stringify env x)"

definition login_request :: "platform \<Rightarrow> credentials \<Rightarrow> request" where
  \<comment> \<open>the arguments of \<open>fetch\<close> in \<open>login\<close>, the same in both versions\<close>
  "login_request env c =
     \<lparr>req_url = buildApiUrl ENDPOINT_LOGIN, req_method = ''POST'', req_headers = HEADERS,
      req_body = Some (JSON_stringify env
                   (JObj [(''email'', JStr (email c)), (''password'', JStr (password c))]))\<rparr>"

subsection \<open>The version with \<open>ensureApiKey\<close>\<close>

text \<open>
  This version provisions the key through \<open>ensureApiKey\<close>, and its \<open>createApiKey\<close>
  rethrows; it keeps the source's names here. The 100 ms delay before the key request and
  the console output are not modelled.
\<close>

definition api_key_request :: "platform \<Rightarrow> world \<Rightarrow> request" where
  \<comment> \<open>the arguments of \<open>fetch\<close> in \<open>createApiKey\<close>; \<open>headers\<close> is \<open>getAuthHeaders()\<close>\<close>
  "api_key_request env w =
     (let headers = getAuthHeaders w
      in \<lparr>req_url = buildApiUrl ENDPOINT_API_KEY, req_method = ''POST'', req_headers = headers,
          req_body = Some (JSON_stringify env (JObj [(''name'', JStr ''Social Media App Key'')]))\<rparr>)"

definition createApiKey_try :: "platform \<Rightarrow> world \<Rightarrow> (js_error + unit) \<times> world" where
  "createApiKey_try env w =
     (case do_fetch env (api_key_request env w) w of
        (Inl e, w1) \<Rightarrow> (Inl e, w1)
      | (Inr response, w1) \<Rightarrow>
          (case json_result response of
             Inl e \<Rightarrow> (Inl e, w1)
           | Inr data \<Rightarrow>
               if \<not> ok response then
                 (if status response = 401 then
                    (Inl (Error ''Unauthorized - Please login again''), w1)
                  else if status response = 500 then
                    (Inl (Error ''Server error - Please try again later''), w1)
                  else
                    (case first_error_message data of
                       Inl e \<Rightarrow> (Inl e, w1)
                     | Inr m \<Rightarrow>
                         (Inl (Error (or_else m
                            (''API key creation failed ('' @ decimal (status response) @ '')''))), w1)))
               else
                 (case get_prop data ''data'' of
                    Inl e \<Rightarrow> (Inl e, w1)
                  | Inr d \<Rightarrow>
                      (case opt_prop d ''key'' of
                         None \<Rightarrow> (Inl (Error ''No API key returned from server''), w1)
                       | Some key \<Rightarrow>
                           if truthy (Some key)
                           then (Inr (), setItem ''apiKey'' (ToString key) w1)
                           else (Inl (Error ''No API key returned from server''), w1)))))"

definition createApiKey :: "platform \<Rightarrow> world \<Rightarrow> (js_error + unit) \<times> world" where
  \<comment> \<open>\<open>catch (error) { console.error(...); throw error }\<close>\<close>
  "createApiKey env w =
     (case createApiKey_try env w of
        (Inl error, w') \<Rightarrow> (Inl error, w')
      | (Inr u, w') \<Rightarrow> (Inr u, w'))"

definition ensureApiKey :: "platform \<Rightarrow> world \<Rightarrow> (js_error + unit) \<times> world" where
  "ensureApiKey env w =
     (let existingApiKey = getItem w ''apiKey''
      in if truthy_str existingApiKey then (Inr (), w) else createApiKey env w)"

definition login_try :: "platform \<Rightarrow> credentials \<Rightarrow> world \<Rightarrow> (js_error + json) \<times> world" where
  "login_try env c w =
     (case do_fetch env (login_request env c) w of
        (Inl e, w1) \<Rightarrow> (Inl e, w1)
      | (Inr response, w1) \<Rightarrow>
          (case json_result response of
             Inl e \<Rightarrow> (Inl e, w1)
           | Inr data \<Rightarrow>
               if \<not> ok response then
                 (case first_error_message data of
                    Inl e \<Rightarrow> (Inl e, w1)
                  | Inr m \<Rightarrow> (Inl (Error (or_else m ''Login failed'')), w1))
               else
                 (case get_prop data ''data'' of
                    Inl e \<Rightarrow> (Inl e, w1)
                  | Inr d \<Rightarrow>
                      (case opt_prop d ''accessToken'' of
                         None \<Rightarrow> (Inr data, w1)
                       | Some accessToken \<Rightarrow>
                           if truthy (Some accessToken) then
                             (let w2 = setItem ''authToken'' (ToString accessToken) w1;
                                  w3 = setItem ''userData'' (stringify_opt env d) w2;
                                  w4 = (case ensureApiKey env w3 of
                                          (Inl apiKeyError, w') \<Rightarrow> w'
                                        | (Inr u, w') \<Rightarrow> w')
                              in (Inr data, w4))
                           else (Inr data, w1)))))"

definition login :: "platform \<Rightarrow> credentials \<Rightarrow> world \<Rightarrow> (js_error + json) \<times> world" where
  \<comment> \<open>\<open>catch (error) { throw new Error(`Login failed: ${error.message}`) }\<close>\<close>
  "login env c w =
     (case login_try env c w of
        (Inl error, w') \<Rightarrow> (Inl (Error (''Login failed: '' @ message error)), w')
      | (Inr data, w') \<Rightarrow> (Inr data, w'))"

definition logout :: "world \<Rightarrow> world" where
  "logout w = removeItem ''userData'' (removeItem ''apiKey'' (removeItem ''authToken'' w))"

definition isAuthenticated :: "world \<Rightarrow> bool" where
  \<comment> \<open>\<open>!!(token && apiKey)\<close>\<close>
  "isAuthenticated w =
     (let token = getItem w ''authToken'';
          apiKey = getItem w ''apiKey''
      in truthy_str (js_and token apiKey))"

definition getCurrentUser :: "platform \<Rightarrow> world \<Rightarrow> js_error + json" where
  \<comment> \<open>\<open>userData ? JSON.parse(userData) : null\<close>\<close>
  "getCurrentUser env w =
     (let userData = getItem w ''userData''
      in case userData of
           None \<Rightarrow> Inr JNull
         | Some u \<Rightarrow> if truthy_str (Some u) then JSON_parse env u else Inr JNull)"

definition isValidNoroffEmail :: "string \<Rightarrow> bool" where
  "isValidNoroffEmail e =
     (let noroffDomains = [''@noroff.no'', ''@stud.noroff.no'']
      in list_ex (\<lambda>domain. endsWith (toLowerCase e) domain) noroffDomains)"

subsection \<open>The version of \<open>js/api/auth.js\<close>\<close>

text \<open>
  Here \<open>login\<close> calls \<open>createApiKey\<close> directly, and \<open>createApiKey\<close> catches every error
  and does not rethrow. \<open>logout\<close>, \<open>isAuthenticated\<close>, \<open>getCurrentUser\<close> and
  \<open>isValidNoroffEmail\<close> are the same text in both versions.
\<close>

definition api_key_request_auth_js :: "world \<Rightarrow> request" where
  "api_key_request_auth_js w =
     \<lparr>req_url = buildApiUrl ENDPOINT_API_KEY, req_method = ''POST'',
      req_headers = getAuthHeaders w, req_body = None\<rparr>"

definition createApiKey_try_auth_js :: "platform \<Rightarrow> world \<Rightarrow> (js_error + unit) \<times> world" where
  "createApiKey_try_auth_js env w =
     (case do_fetch env (api_key_request_auth_js w) w of
        (Inl e, w1) \<Rightarrow> (Inl e, w1)
      | (Inr response, w1) \<Rightarrow>
          (case json_result response of
             Inl e \<Rightarrow> (Inl e, w1)
           | Inr data \<Rightarrow>
               if \<not> ok response then
                 (case first_error_message data of
                    Inl e \<Rightarrow> (Inl e, w1)
                  | Inr m \<Rightarrow> (Inl (Error (or_else m ''API key creation failed'')), w1))
               else
                 (case get_prop data ''data'' of
                    Inl e \<Rightarrow> (Inl e, w1)
                  | Inr d \<Rightarrow>
                      (case opt_prop d ''key'' of
                         None \<Rightarrow> (Inr (), w1)
                       | Some key \<Rightarrow>
                           if truthy (Some key)
                           then (Inr (), setItem ''apiKey'' (ToString key) w1)
                           else (Inr (), w1)))))"

definition createApiKey_auth_js :: "platform \<Rightarrow> world \<Rightarrow> world" where
  \<comment> \<open>\<open>catch (error) { console.error(...) }\<close>: nothing is thrown\<close>
  "createApiKey_auth_js env w = snd (createApiKey_try_auth_js env w)"

definition login_try_auth_js :: "platform \<Rightarrow> credentials \<Rightarrow> world \<Rightarrow> (js_error + json) \<times> world" where
  "login_try_auth_js env c w =
     (case do_fetch env (login_request env c) w of
        (Inl e, w1) \<Rightarrow> (Inl e, w1)
      | (Inr response, w1) \<Rightarrow>
          (case json_result response of
             Inl e \<Rightarrow> (Inl e, w1)
           | Inr data \<Rightarrow>
               if \<not> ok response then
                 (case first_error_message data of
                    Inl e \<Rightarrow> (Inl e, w1)
                  | Inr m \<Rightarrow> (Inl (Error (or_else m ''Login failed'')), w1))
               else
                 (case get_prop data ''data'' of
                    Inl e \<Rightarrow> (Inl e, w1)
                  | Inr d \<Rightarrow>
                      (case opt_prop d ''accessToken'' of
                         None \<Rightarrow> (Inr data, w1)
                       | Some accessToken \<Rightarrow>
                           if truthy (Some accessToken) then
                             (let w2 = setItem ''authToken'' (ToString accessToken) w1;
                                  w3 = setItem ''userData'' (stringify_opt env d) w2;
                                  w4 = createApiKey_auth_js env w3
                              in (Inr data, w4))
                           else (Inr data, w1)))))"

definition login_auth_js :: "platform \<Rightarrow> credentials \<Rightarrow> world \<Rightarrow> (js_error + json) \<times> world" where
  "login_auth_js env c w =
     (case login_try_auth_js env c w of
        (Inl error, w') \<Rightarrow> (Inl (Error (''Login failed: '' @ message error)), w')
      | (Inr data, w') \<Rightarrow> (Inr data, w'))"

section \<open>api/posts.js: the posts service\<close>

text \<open>
  The options of \<open>getPosts\<close>; \<open>None\<close> is a property left \<open>undefined\<close>, which takes the
  default of the parameter list (\<open>limit = 12, page = 1, tag = , search = \<close>).
\<close>

record posts_options =
  limit :: "int option"
  page :: "int option"
  tag :: "string option"
  search :: "string option"

definition default_to :: "'a \<Rightarrow> 'a option \<Rightarrow> 'a" where
  "default_to d v = (case v of None \<Rightarrow> d | Some x \<Rightarrow> x)"

definition getPosts_url :: "posts_options \<Rightarrow> string" where
  \<comment> \<open>the statements of \<open>getPosts\<close> that build \<open>url\<close>, before the request is issued\<close>
  "getPosts_url opts =
     (let limit = default_to 12 (limit opts);
          page = default_to 1 (page opts);
          tag = default_to [] (tag opts);
          search = default_to [] (search opts);
          params = [(''limit'', Number_toString limit),
                    (''page'', Number_toString page),
                    (''_author'', ''true''),
                    (''_comments'', ''true''),
                    (''_reactions'', ''true'')];
          params = (if tag \<noteq> [] then params @ [(''_tag'', tag)] else params);
          url = buildApiUrl ENDPOINT_POSTS @ ''?'' @ URLSearchParams_toString params;
          url = (if search \<noteq> []
                 then buildApiUrl ENDPOINT_POSTS @ ''/search?q='' @ encodeURIComponent search
                        @ ''&'' @ URLSearchParams_toString params
                 else url)
      in url)"

definition getPosts_try :: "platform \<Rightarrow> posts_options \<Rightarrow> world \<Rightarrow> (js_error + json) \<times> world" where
  "getPosts_try env opts w =
     (case do_fetch env
             \<lparr>req_url = getPosts_url opts, req_method = ''GET'', req_headers = getAuthHeaders w,
              req_body = None\<rparr> w of
        (Inl e, w1) \<Rightarrow> (Inl e, w1)
      | (Inr response, w1) \<Rightarrow>
          (case json_result response of
             Inl e \<Rightarrow> (Inl e, w1)
           | Inr data \<Rightarrow>
               if \<not> ok response then
                 (case first_error_message data of
                    Inl e \<Rightarrow> (Inl e, w1)
                  | Inr m \<Rightarrow> (Inl (Error (or_else m ''Failed to fetch posts'')), w1))
               else (Inr data, w1)))"

definition getPosts :: "platform \<Rightarrow> posts_options \<Rightarrow> world \<Rightarrow> (js_error + json) \<times> world" where
  "getPosts env opts w =
     (case getPosts_try env opts w of
        (Inl error, w') \<Rightarrow> (Inl (Error (''Failed to fetch posts: '' @ message error)), w')
      | (Inr data, w') \<Rightarrow> (Inr data, w'))"

text \<open>
  The argument of \<open>createPost\<close> and \<open>updatePost\<close>: \<open>tags\<close> left \<open>undefined\<close> is \<open>[]\<close>,
  \<open>media\<close> left \<open>undefined\<close> or \<open>null\<close> is \<open>None\<close>.
\<close>

record post_data =
  title :: string
  body :: string
  tags :: "string list option"
  media :: "string option"

definition postPayload :: "post_data \<Rightarrow> json" where
  \<comment> \<open>the object \<open>postPayload\<close>, built by the same statements in \<open>createPost\<close> and \<open>updatePost\<close>\<close>
  "postPayload pd =
     (let tags = default_to [] (tags pd);
          postPayload =
            [(''title'', JStr (trim (title pd))),
             (''body'', JStr (trim (body pd))),
             (''tags'', JArr (map (\<lambda>tag. JStr (trim tag))
                               (filter (\<lambda>tag. length (trim tag) > 0) tags)))];
          postPayload =
            (case media pd of
               None \<Rightarrow> postPayload
             | Some m \<Rightarrow>
                 if m \<noteq> [] \<and> trim m \<noteq> []
                 then AList.update ''media''
                        (JObj [(''url'', JStr (trim m)),
                               (''alt'', JStr (if title pd \<noteq> [] then title pd else ''Post media''))])
                        postPayload
                 else postPayload)
      in JObj postPayload)"

definition write_post :: "platform \<Rightarrow> string \<Rightarrow> string \<Rightarrow> string \<Rightarrow> post_data \<Rightarrow> world
    \<Rightarrow> (js_error + json) \<times> world" where
  \<comment> \<open>the \<open>try\<close> block that \<open>createPost\<close> and \<open>updatePost\<close> share up to URL, method and fallback\<close>
  "write_post env url meth fallback pd w =
     (case do_fetch env
             \<lparr>req_url = url, req_method = meth, req_headers = getAuthHeaders w,
              req_body = Some (JSON_stringify env (postPayload pd))\<rparr> w of
        (Inl e, w1) \<Rightarrow> (Inl e, w1)
      | (Inr response, w1) \<Rightarrow>
          (case json_result response of
             Inl e \<Rightarrow> (Inl e, w1)
           | Inr data \<Rightarrow>
               if \<not> ok response then
                 (case first_error_message data of
                    Inl e \<Rightarrow> (Inl e, w1)
                  | Inr m \<Rightarrow> (Inl (Error (or_else m fallback)), w1))
               else (Inr data, w1)))"

definition createPost :: "platform \<Rightarrow> post_data \<Rightarrow> world \<Rightarrow> (js_error + json) \<times> world" where
  "createPost env pd w =
     (case write_post env (buildApiUrl ENDPOINT_POSTS) ''POST'' ''Failed to create post'' pd w of
        (Inl error, w') \<Rightarrow> (Inl (Error (''Failed to create post: '' @ message error)), w')
      | (Inr data, w') \<Rightarrow> (Inr data, w'))"

definition updatePost :: "platform \<Rightarrow> string \<Rightarrow> post_data \<Rightarrow> world \<Rightarrow> (js_error + json) \<times> world" where
  "updatePost env ident pd w =
     (case write_post env (buildApiUrl ENDPOINT_POSTS @ ''/'' @ ident) ''PUT''
             ''Failed to update post'' pd w of
        (Inl error, w') \<Rightarrow> (Inl (Error (''Failed to update post: '' @ message error)), w')
      | (Inr data, w') \<Rightarrow> (Inr data, w'))"

section \<open>main.js: saving a post from the form\<close>

text \<open>
  \<open>handleSavePost\<close> reads four form fields, builds \<open>postData\<close> and hands it to
  \<open>updatePost\<close> or \<open>createPost\<close>. The model is the part that builds \<open>postData\<close> from
  the values of the form fields; \<open>None\<close> is the early return on a missing title or body.
\<close>

record post_form =
  postTitle :: string
  postBody :: string
  postTags :: string
  postMedia :: string

definition handleSavePost_postData :: "post_form \<Rightarrow> post_data option" where
  "handleSavePost_postData f =
     (let title = trim (postTitle f);
          body = trim (postBody f);
          tagsInput = trim (postTags f);
          media = trim (postMedia f)
      in if title = [] \<or> body = [] then None
         else
           (let tags = (if tagsInput \<noteq> []
                        then filter (\<lambda>tag. tag \<noteq> []) (map trim (split tagsInput CHR '',''))
                        else [])
            in Some \<lparr>title = title, body = body, tags = Some tags,
                     media = (if media \<noteq> [] then Some media else None)\<rparr>))"

section \<open>Concrete platforms and states\<close>

text \<open>
  Closed instances for the theorems below: a serialiser for values whose strings need no
  escaping, a parser that knows the text \<open>null\<close>, a server that answers the login endpoint
  and the key endpoint with two given outcomes and fails every other request in transport,
  and a state with given storage entries and no request issued.
\<close>

fun stringify_plain :: "json \<Rightarrow> string" where
  "stringify_plain JNull = ''null''"
| "stringify_plain (JBool b) = (if b then ''true'' else ''false'')"
| "stringify_plain (JNum n) = Number_toString n"
| "stringify_plain (JStr s) = [CHR 0x22] @ s @ [CHR 0x22]"
| "stringify_plain (JArr xs) = ''['' @ join_comma (map stringify_plain xs) @ '']''"
| "stringify_plain (JObj kvs) =
     ''{'' @ join_comma (map (\<lambda>(k, v). [CHR 0x22] @ k @ [CHR 0x22] @ '':'' @ stringify_plain v) kvs) @ ''}''"

definition test_platform :: "(js_error + response) \<Rightarrow> (js_error + response) \<Rightarrow> platform" where
  "test_platform login_answer key_answer =
     \<lparr>fetch = (\<lambda>rq. if req_url rq = buildApiUrl ENDPOINT_LOGIN then login_answer
                     else if req_url rq = buildApiUrl ENDPOINT_API_KEY then key_answer
                     else Inl (TypeError ''Failed to fetch'')),
      JSON_stringify = stringify_plain,
      JSON_parse = (\<lambda>s. if s = ''null'' then Inr JNull
                          else Inl (SyntaxError ''Unexpected token''))\<rparr>"

definition world_of :: "(string \<times> string) list \<Rightarrow> world" where
  "world_of entries = \<lparr>localStorage = map_of entries, requests = []\<rparr>"

definition demo_credentials :: credentials where
  "demo_credentials = \<lparr>email = ''ola@stud.noroff.no'', password = ''secret123''\<rparr>"

definition demo_login_body :: json where
  "demo_login_body =
     JObj [(''data'', JObj [(''name'', JStr ''ola''), (''email'', JStr ''ola@stud.noroff.no''),
                            (''accessToken'', JStr ''jwt'')]),
           (''meta'', JObj [])]"

definition demo_error_body :: json where
  "demo_error_body = JObj [(''errors'', JArr [JObj [(''message'', JStr ''Service Unavailable'')]])]"


section \<open>Properties of the string functions\<close>

lemma strip_end_keeps_head:
  "u \<noteq> [] \<Longrightarrow> \<not> P (hd u) \<Longrightarrow>
   dropWhile P (rev (dropWhile P (rev u))) = rev (dropWhile P (rev u))"
  by (metis dropWhile_eq_self_iff dropWhile_last hd_rev last_in_set last_rev)

lemma trim_idem: "trim (trim s) = trim s"
proof (cases "dropWhile isWhiteSpace s")
  case Nil
  show ?thesis unfolding trim_def Nil by simp
next
  case (Cons a as)
  let ?u = "dropWhile isWhiteSpace s"
  let ?t = "rev (dropWhile isWhiteSpace (rev ?u))"
  have ne: "?u \<noteq> []" using Cons by simp
  have "\<not> isWhiteSpace (hd ?u)"
    using Cons by (metis hd_dropWhile list.distinct(1))
  with ne have lead: "dropWhile isWhiteSpace ?t = ?t"
    by (rule strip_end_keeps_head)
  have trail: "dropWhile isWhiteSpace (rev ?t) = rev ?t"
    by (simp add: dropWhile_idem)
  show ?thesis
    unfolding trim_def lead trail by simp
qed

lemma trim_empty_iff: "(trim s = []) = (\<forall>c \<in> set s. isWhiteSpace c)"
proof
  assume "trim s = []"
  then have all: "\<forall>c \<in> set (dropWhile isWhiteSpace s). isWhiteSpace c"
    by (simp add: trim_def)
  show "\<forall>c \<in> set s. isWhiteSpace c"
  proof (cases "dropWhile isWhiteSpace s")
    case Nil
    then show ?thesis by simp
  next
    case (Cons a as)
    then have "\<not> isWhiteSpace a"
      by (metis hd_dropWhile list.distinct(1) list.sel(1))
    moreover have "isWhiteSpace a" using all Cons by simp
    ultimately show ?thesis by simp
  qed
next
  assume "\<forall>c \<in> set s. isWhiteSpace c"
  then have u: "dropWhile isWhiteSpace s = []"
    by simp
  show "trim s = []" unfolding trim_def u by simp
qed

lemma endsWith_suffix: "endsWith s d = suffix d s"
  by (auto simp: endsWith_def suffix_def) (metis append_take_drop_id)

lemma lower_char_idem: "lower_char (lower_char c) = lower_char c"
  by (simp add: lower_char_def Let_def)

lemma toLowerCase_idem: "toLowerCase (toLowerCase s) = toLowerCase s"
  by (simp add: toLowerCase_def lower_char_idem)

lemma digit_char_alnum: "d < 10 \<Longrightarrow> isAlphaNum (digit_char d)"
  by (simp add: isAlphaNum_def digit_char_def Let_def)

lemma decimal_alnum: "c \<in> set (decimal n) \<Longrightarrow> isAlphaNum c"
proof (induction n arbitrary: c rule: decimal.induct)
  case (1 n)
  show ?case
  proof (cases "n < 10")
    case True
    with "1.prems" show ?thesis
      by (simp add: decimal.simps [of n] digit_char_alnum)
  next
    case False
    with "1.prems" have "c \<in> set (decimal (n div 10)) \<or> c = digit_char (n mod 10)"
      by (auto simp: decimal.simps [of n])
    then show ?thesis
      using "1.IH" [OF False] by (auto simp: digit_char_alnum)
  qed
qed

lemma form_urlencode_safe:
  "(\<And>c. c \<in> set s \<Longrightarrow> isAlphaNum c \<or> c \<in> set ''*-._'') \<Longrightarrow> form_urlencode s = s"
  unfolding form_urlencode_def
  by (induction s) auto

lemma form_urlencode_number: "form_urlencode (Number_toString i) = Number_toString i"
  by (rule form_urlencode_safe) (auto simp: Number_toString_def split: if_splits dest: decimal_alnum)

lemma filter_trim_swap:
  "map trim (filter (\<lambda>tag. length (trim tag) > 0) ts) = filter (\<lambda>t. t \<noteq> []) (map trim ts)"
  by (induction ts) auto


section \<open>The session store\<close>

text \<open>
  Claim C1. For every storage state, \<open>isAuthenticated()\<close> returns true if and only if both
  the stored bearer token and the stored API key are present and non-empty strings; it
  returns false exactly when one of the two entries is absent or is the empty string.
\<close>

theorem isAuthenticated_iff_both_nonempty:
  "isAuthenticated w =
     (\<exists>t k. localStorage w ''authToken'' = Some t \<and> t \<noteq> [] \<and>
            localStorage w ''apiKey'' = Some k \<and> k \<noteq> [])
   \<and> (\<not> isAuthenticated w) =
     (localStorage w ''authToken'' = None \<or> localStorage w ''authToken'' = Some [] \<or>
      localStorage w ''apiKey'' = None \<or> localStorage w ''apiKey'' = Some [])"
  by (cases "localStorage w ''authToken''"; cases "localStorage w ''apiKey''")
     (simp_all add: isAuthenticated_def getItem_def js_and_def)

theorem isAuthenticated_iff_both_nonempty_witness:
  "isAuthenticated (world_of [(''authToken'', ''t''), (''apiKey'', ''k'')])
   \<and> \<not> isAuthenticated (world_of [(''authToken'', ''t''), (''apiKey'', [])])
   \<and> \<not> isAuthenticated (world_of [(''apiKey'', ''k'')])"
  using isAuthenticated_iff_both_nonempty [of "world_of [(''authToken'', ''t''), (''apiKey'', ''k'')]"]
    isAuthenticated_iff_both_nonempty [of "world_of [(''authToken'', ''t''), (''apiKey'', [])]"]
    isAuthenticated_iff_both_nonempty [of "world_of [(''apiKey'', ''k'')]"]
  by (simp add: world_of_def)

text \<open>
  Claim C8, as the code has it. For every storage state, \<open>getAuthHeaders()\<close> returns the
  default content-type header, plus \<open>Authorization: Bearer <token>\<close> exactly when a non-empty
  token is stored, plus \<open>X-Noroff-API-Key: <key>\<close> exactly when a non-empty API key is
  stored. Each of the two is decided by its own entry alone, an entry that is absent or
  the empty string gives no header, and no other header is returned. The builder is a
  total function of the storage state: it has no failing branch.
\<close>

theorem getAuthHeaders_contents:
  "map_of (getAuthHeaders w) ''Authorization'' =
     (case localStorage w ''authToken'' of
        None \<Rightarrow> None
      | Some t \<Rightarrow> if t = [] then None else Some (''Bearer '' @ t))
   \<and> map_of (getAuthHeaders w) ''X-Noroff-API-Key'' =
     (case localStorage w ''apiKey'' of
        None \<Rightarrow> None
      | Some k \<Rightarrow> if k = [] then None else Some k)
   \<and> map_of (getAuthHeaders w) ''Content-Type'' = Some ''application/json''
   \<and> distinct (map fst (getAuthHeaders w))
   \<and> set (map fst (getAuthHeaders w)) \<subseteq> {''Content-Type'', ''Authorization'', ''X-Noroff-API-Key''}"
  by (cases "localStorage w ''authToken''"; cases "localStorage w ''apiKey''")
     (simp_all add: getAuthHeaders_def getItem_def HEADERS_def)

theorem getAuthHeaders_contents_witness:
  "map_of (getAuthHeaders (world_of [(''authToken'', ''t'')])) ''Authorization'' = Some ''Bearer t''
   \<and> map_of (getAuthHeaders (world_of [(''authToken'', ''t'')])) ''X-Noroff-API-Key'' = None
   \<and> map_of (getAuthHeaders (world_of [(''apiKey'', ''k'')])) ''Authorization'' = None
   \<and> map_of (getAuthHeaders (world_of [(''apiKey'', ''k'')])) ''X-Noroff-API-Key'' = Some ''k''"
  using getAuthHeaders_contents [of "world_of [(''authToken'', ''t'')]"]
    getAuthHeaders_contents [of "world_of [(''apiKey'', ''k'')]"]
  by (simp add: world_of_def)

text \<open>
  The claim as stated ("exactly when a token is stored") fails on a stored entry that is
  the empty string: the entry is there, and the header is not.
\<close>

theorem getAuthHeaders_empty_entry_counterexample:
  "localStorage (world_of [(''authToken'', []), (''apiKey'', [])]) ''authToken'' = Some []
   \<and> localStorage (world_of [(''authToken'', []), (''apiKey'', [])]) ''apiKey'' = Some []
   \<and> getAuthHeaders (world_of [(''authToken'', []), (''apiKey'', [])])
       = [(''Content-Type'', ''application/json'')]"
  by (simp add: world_of_def getAuthHeaders_def getItem_def HEADERS_def)

section \<open>The authentication service\<close>

text \<open>
  Claim C9. From every storage state, \<open>logout\<close> removes all three session entries (bearer
  token, API key, stored user) and issues no network request; immediately afterwards
  \<open>getCurrentUser()\<close> returns \<open>null\<close> and \<open>isAuthenticated()\<close> returns false.
\<close>

theorem logout_clears_session:
  "localStorage (logout w) ''authToken'' = None
   \<and> localStorage (logout w) ''apiKey'' = None
   \<and> localStorage (logout w) ''userData'' = None
   \<and> requests (logout w) = requests w
   \<and> getCurrentUser env (logout w) = Inr JNull
   \<and> \<not> isAuthenticated (logout w)"
  by (simp add: logout_def removeItem_def getCurrentUser_def isAuthenticated_def getItem_def
      js_and_def)

text \<open>
  Claim C7. The email-domain predicate is a function of its argument alone and performs a
  case-insensitive suffix match against the two domains \<open>@noroff.no\<close> and
  \<open>@stud.noroff.no\<close>: it is true iff the lowercased input ends with one of them. It is
  true for \<open>X@STUD.NOROFF.NO\<close> and false for \<open>x@gmail.com\<close>.
\<close>

theorem isValidNoroffEmail_suffix_match:
  "isValidNoroffEmail e =
     (suffix ''@noroff.no'' (toLowerCase e) \<or> suffix ''@stud.noroff.no'' (toLowerCase e))
   \<and> isValidNoroffEmail (toLowerCase e) = isValidNoroffEmail e
   \<and> isValidNoroffEmail ''X@STUD.NOROFF.NO''
   \<and> \<not> isValidNoroffEmail ''x@gmail.com''"
proof -
  have match: "isValidNoroffEmail x =
     (suffix ''@noroff.no'' (toLowerCase x) \<or> suffix ''@stud.noroff.no'' (toLowerCase x))" for x
    by (simp add: isValidNoroffEmail_def endsWith_suffix)
  have "isValidNoroffEmail (toLowerCase e) = isValidNoroffEmail e"
    by (simp only: match toLowerCase_idem)
  moreover have "isValidNoroffEmail ''X@STUD.NOROFF.NO''" by code_simp
  moreover have "\<not> isValidNoroffEmail ''x@gmail.com''" by code_simp
  ultimately show ?thesis using match by blast
qed

section \<open>The posts service\<close>

lemma write_post_requests:
  "requests (snd (write_post env url meth fallback pd w)) =
     requests w @ [\<lparr>req_url = url, req_method = meth, req_headers = getAuthHeaders w,
                    req_body = Some (JSON_stringify env (postPayload pd))\<rparr>]"
  by (simp add: write_post_def do_fetch_def split: sum.splits)

lemma createPost_requests:
  "requests (snd (createPost env pd w)) =
     requests w @ [\<lparr>req_url = buildApiUrl ENDPOINT_POSTS, req_method = ''POST'',
                    req_headers = getAuthHeaders w,
                    req_body = Some (JSON_stringify env (postPayload pd))\<rparr>]"
proof -
  have "snd (createPost env pd w) =
          snd (write_post env (buildApiUrl ENDPOINT_POSTS) ''POST'' ''Failed to create post'' pd w)"
    by (simp add: createPost_def split: prod.splits sum.splits)
  then show ?thesis by (simp only: write_post_requests)
qed

lemma updatePost_requests:
  "requests (snd (updatePost env ident pd w)) =
     requests w @ [\<lparr>req_url = buildApiUrl ENDPOINT_POSTS @ ''/'' @ ident, req_method = ''PUT'',
                    req_headers = getAuthHeaders w,
                    req_body = Some (JSON_stringify env (postPayload pd))\<rparr>]"
proof -
  have "snd (updatePost env ident pd w) =
          snd (write_post env (buildApiUrl ENDPOINT_POSTS @ ''/'' @ ident) ''PUT''
                 ''Failed to update post'' pd w)"
    by (simp add: updatePost_def split: prod.splits sum.splits)
  then show ?thesis by (simp only: write_post_requests)
qed

lemma write_post_storage:
  "localStorage (snd (write_post env url meth fallback pd w)) = localStorage w"
  by (simp add: write_post_def do_fetch_def split: sum.splits)

lemma postPayload_tags:
  "own_prop (postPayload pd) ''tags'' =
     Some (JArr (map JStr (filter (\<lambda>t. t \<noteq> []) (map trim (default_to [] (tags pd))))))"
proof -
  have "map (\<lambda>tag. JStr (trim tag)) ts = map JStr (map trim ts)" for ts
    by simp
  then show ?thesis
    by (simp add: postPayload_def Let_def filter_trim_swap [symmetric] split: option.splits)
qed

lemma postPayload_title_body:
  "own_prop (postPayload pd) ''title'' = Some (JStr (trim (title pd)))
   \<and> own_prop (postPayload pd) ''body'' = Some (JStr (trim (body pd)))"
  by (simp add: postPayload_def Let_def split: option.splits)

lemma postPayload_media:
  "own_prop (postPayload pd) ''media'' =
     (case media pd of
        None \<Rightarrow> None
      | Some m \<Rightarrow>
          if trim m = [] then None
          else Some (JObj [(''url'', JStr (trim m)),
                           (''alt'', JStr (if title pd = [] then ''Post media'' else title pd))]))"
  by (auto simp add: postPayload_def Let_def trim_def split: option.splits)

lemma save_tags_example:
  "filter (\<lambda>tag. tag \<noteq> []) (map trim (split (trim ''a, , b ,'') CHR '','')) = [''a'', ''b'']"
  by code_simp

text \<open>
  Claim C4. For every post create or update, the tags of the outgoing payload are the
  submitted tags, each trimmed, without those that are empty after trimming; every tag
  sent is non-empty and has no white space left to trim. The title and the body are
  trimmed likewise. The request that \<open>createPost\<close> or \<open>updatePost\<close> issues carries this
  payload, and the tag input \<open>a, , b ,\<close> of the post form yields exactly the tags
  \<open>a\<close> and \<open>b\<close>.
\<close>

theorem post_tags_trimmed_nonempty:
  "own_prop (postPayload pd) ''tags'' =
     Some (JArr (map JStr (filter (\<lambda>t. t \<noteq> []) (map trim (default_to [] (tags pd))))))
   \<and> (\<forall>t \<in> set (filter (\<lambda>t. t \<noteq> []) (map trim (default_to [] (tags pd)))).
         t \<noteq> [] \<and> trim t = t)
   \<and> own_prop (postPayload pd) ''title'' = Some (JStr (trim (title pd)))
   \<and> own_prop (postPayload pd) ''body'' = Some (JStr (trim (body pd)))
   \<and> requests (snd (createPost env pd w)) =
       requests w @ [\<lparr>req_url = buildApiUrl ENDPOINT_POSTS, req_method = ''POST'',
                      req_headers = getAuthHeaders w,
                      req_body = Some (JSON_stringify env (postPayload pd))\<rparr>]
   \<and> requests (snd (updatePost env ident pd w)) =
       requests w @ [\<lparr>req_url = buildApiUrl ENDPOINT_POSTS @ ''/'' @ ident, req_method = ''PUT'',
                      req_headers = getAuthHeaders w,
                      req_body = Some (JSON_stringify env (postPayload pd))\<rparr>]
   \<and> (postTags f = ''a, , b ,'' \<and> handleSavePost_postData f = Some pd
        \<longrightarrow> own_prop (postPayload pd) ''tags'' = Some (JArr [JStr ''a'', JStr ''b'']))"
proof -
  have each: "\<forall>t \<in> set (filter (\<lambda>t. t \<noteq> []) (map trim (default_to [] (tags pd)))).
                t \<noteq> [] \<and> trim t = t"
    by (auto simp: trim_idem)
  have example: "own_prop (postPayload pd) ''tags'' = Some (JArr [JStr ''a'', JStr ''b''])"
    if f: "postTags f = ''a, , b ,''" and some: "handleSavePost_postData f = Some pd"
  proof -
    have ne: "trim ''a, , b ,'' \<noteq> []" by code_simp
    have "tags pd = Some (filter (\<lambda>tag. tag \<noteq> []) (map trim (split (trim ''a, , b ,'') CHR '','')))"
      using some ne unfolding handleSavePost_postData_def Let_def f
      by (auto split: if_splits)
    then have tags: "tags pd = Some [''a'', ''b'']"
      by (simp only: save_tags_example)
    have "filter (\<lambda>t. t \<noteq> []) (map trim [''a'', ''b'']) = [''a'', ''b'']"
      by code_simp
    then show ?thesis
      by (simp only: postPayload_tags tags default_to_def option.case) simp
  qed
  show ?thesis
    by (intro conjI impI; (elim conjE)?)
       (rule postPayload_tags each postPayload_title_body [THEN conjunct1]
          postPayload_title_body [THEN conjunct2] createPost_requests updatePost_requests
        | erule (1) example)+
qed

theorem post_tags_trimmed_nonempty_witness:
  "handleSavePost_postData \<lparr>postTitle = ''Hi'', postBody = ''text'', postTags = ''a, , b ,'', postMedia = []\<rparr>
     = Some \<lparr>title = ''Hi'', body = ''text'', tags = Some [''a'', ''b''], media = None\<rparr>
   \<and> own_prop (postPayload \<lparr>title = ''Hi'', body = ''text'', tags = Some [''a'', ''b''], media = None\<rparr>) ''tags''
       = Some (JArr [JStr ''a'', JStr ''b''])"
proof -
  let ?f = "\<lparr>postTitle = ''Hi'', postBody = ''text'', postTags = ''a, , b ,'', postMedia = []\<rparr>"
  let ?pd = "\<lparr>title = ''Hi'', body = ''text'', tags = Some [''a'', ''b''], media = None\<rparr>"
  have data: "handleSavePost_postData ?f = Some ?pd"
    by code_simp
  have input: "postTags ?f = ''a, , b ,''"
    by simp
  from post_tags_trimmed_nonempty [of ?pd "test_platform (Inl (TypeError [])) (Inl (TypeError []))" "world_of []" "[]" ?f]
  have "postTags ?f = ''a, , b ,'' \<and> handleSavePost_postData ?f = Some ?pd
        \<longrightarrow> own_prop (postPayload ?pd) ''tags'' = Some (JArr [JStr ''a'', JStr ''b''])"
    by (elim conjE)
  with data input show ?thesis by (intro conjI) (rule data, rule mp, assumption, intro conjI, assumption+)
qed

text \<open>
  Claim C5. For every post create or update, the payload has no \<open>media\<close> field at all when
  the media URL is absent, empty or made of white space only; otherwise it has a media
  object whose \<open>url\<close> is the trimmed URL. The body of the request that \<open>createPost\<close> or
  \<open>updatePost\<close> issues is this payload.
\<close>

theorem post_media_omitted_when_blank:
  "own_prop (postPayload pd) ''media'' =
     (case media pd of
        None \<Rightarrow> None
      | Some m \<Rightarrow>
          if list_all isWhiteSpace m then None
          else Some (JObj [(''url'', JStr (trim m)),
                           (''alt'', JStr (if title pd = [] then ''Post media'' else title pd))]))
   \<and> req_body (last (requests (snd (createPost env pd w)))) = Some (JSON_stringify env (postPayload pd))
   \<and> req_body (last (requests (snd (updatePost env ident pd w)))) = Some (JSON_stringify env (postPayload pd))"
  by (simp add: postPayload_media trim_empty_iff list_all_iff createPost_requests
      updatePost_requests split: option.splits)

theorem post_media_omitted_when_blank_witness:
  "own_prop (postPayload \<lparr>title = ''Hi'', body = ''text'', tags = None, media = Some ''  ''\<rparr>) ''media'' = None
   \<and> own_prop (postPayload \<lparr>title = ''Hi'', body = ''text'', tags = None, media = Some []\<rparr>) ''media'' = None
   \<and> own_prop (postPayload \<lparr>title = ''Hi'', body = ''text'', tags = None, media = None\<rparr>) ''media'' = None
   \<and> own_prop (postPayload \<lparr>title = ''Hi'', body = ''text'', tags = None, media = Some '' http://x/y.png ''\<rparr>) ''media''
       = Some (JObj [(''url'', JStr ''http://x/y.png''), (''alt'', JStr ''Hi'')])"
proof -
  have t: "trim '' http://x/y.png '' = ''http://x/y.png''" by code_simp
  have a: "list_all isWhiteSpace ''  '' = True" by code_simp
  have b: "list_all isWhiteSpace '' http://x/y.png '' = False" by code_simp
  have c: "list_all isWhiteSpace [] = True" by simp
  have d: "(''Hi'' = []) = False" by simp
  note inst = post_media_omitted_when_blank [THEN conjunct1]
  have 1: "own_prop (postPayload \<lparr>title = ''Hi'', body = ''text'', tags = None, media = Some ''  ''\<rparr>) ''media'' = None"
    by (simp only: inst a post_data.simps option.case if_True)
  have 2: "own_prop (postPayload \<lparr>title = ''Hi'', body = ''text'', tags = None, media = Some []\<rparr>) ''media'' = None"
    by (simp only: inst c post_data.simps option.case if_True)
  have 3: "own_prop (postPayload \<lparr>title = ''Hi'', body = ''text'', tags = None, media = None\<rparr>) ''media'' = None"
    by (simp only: inst post_data.simps option.case)
  have 4: "own_prop (postPayload \<lparr>title = ''Hi'', body = ''text'', tags = None, media = Some '' http://x/y.png ''\<rparr>) ''media''
       = Some (JObj [(''url'', JStr ''http://x/y.png''), (''alt'', JStr ''Hi'')])"
    by (simp only: inst b d t post_data.simps option.case if_False)
  from 1 2 3 4 show ?thesis by (intro conjI)
qed

lemma form_urlencode_names:
  "form_urlencode ''limit'' = ''limit''"
  "form_urlencode ''page'' = ''page''"
  "form_urlencode ''_author'' = ''_author''"
  "form_urlencode ''_comments'' = ''_comments''"
  "form_urlencode ''_reactions'' = ''_reactions''"
  "form_urlencode ''_tag'' = ''_tag''"
  "form_urlencode ''true'' = ''true''"
  by code_simp+

lemma listing_params:
  "URLSearchParams_toString
     ([(''limit'', Number_toString l), (''page'', Number_toString p), (''_author'', ''true''),
       (''_comments'', ''true''), (''_reactions'', ''true'')]
      @ (if t \<noteq> [] then [(''_tag'', t)] else []))
   = ''limit='' @ Number_toString l @ ''&page='' @ Number_toString p
       @ ''&_author=true&_comments=true&_reactions=true''
       @ (if t = [] then [] else ''&_tag='' @ form_urlencode t)"
  by (cases "t = []")
     (simp_all add: URLSearchParams_toString_def form_urlencode_names form_urlencode_number)

lemma getPosts_url_eq:
  "getPosts_url opts =
     (if default_to [] (search opts) = []
      then ''https://v2.api.noroff.dev/social/posts?''
             @ ''limit='' @ Number_toString (default_to 12 (limit opts))
             @ ''&page='' @ Number_toString (default_to 1 (page opts))
             @ ''&_author=true&_comments=true&_reactions=true''
             @ (if default_to [] (tag opts) = [] then []
                else ''&_tag='' @ form_urlencode (default_to [] (tag opts)))
      else ''https://v2.api.noroff.dev/social/posts/search?q=''
             @ encodeURIComponent (default_to [] (search opts)) @ ''&''
             @ ''limit='' @ Number_toString (default_to 12 (limit opts))
             @ ''&page='' @ Number_toString (default_to 1 (page opts))
             @ ''&_author=true&_comments=true&_reactions=true''
             @ (if default_to [] (tag opts) = [] then []
                else ''&_tag='' @ form_urlencode (default_to [] (tag opts))))"
proof -
  let ?P = "URLSearchParams_toString
     ([(''limit'', Number_toString (default_to 12 (limit opts))),
       (''page'', Number_toString (default_to 1 (page opts))), (''_author'', ''true''),
       (''_comments'', ''true''), (''_reactions'', ''true'')]
      @ (if default_to [] (tag opts) \<noteq> [] then [(''_tag'', default_to [] (tag opts))] else []))"
  have base: "buildApiUrl ENDPOINT_POSTS = ''https://v2.api.noroff.dev/social/posts''"
    by (simp add: buildApiUrl_def BASE_URL_def ENDPOINT_POSTS_def)
  have "getPosts_url opts =
          (if default_to [] (search opts) = []
           then buildApiUrl ENDPOINT_POSTS @ ''?'' @ ?P
           else buildApiUrl ENDPOINT_POSTS @ ''/search?q=''
                  @ encodeURIComponent (default_to [] (search opts)) @ ''&'' @ ?P)"
    unfolding getPosts_url_def Let_def
    by (cases "default_to [] (tag opts) = []"; cases "default_to [] (search opts) = []")
       (simp_all only: if_True if_False simp_thms append_Nil2)
  then show ?thesis
    unfolding listing_params base
    by (cases "default_to [] (search opts) = []") (simp_all only: if_True if_False simp_thms append.simps append_assoc)
qed

lemma getPosts_requests:
  "requests (snd (getPosts env opts w)) =
     requests w @ [\<lparr>req_url = getPosts_url opts, req_method = ''GET'',
                    req_headers = getAuthHeaders w, req_body = None\<rparr>]"
proof -
  have "snd (getPosts env opts w) = snd (getPosts_try env opts w)"
    by (simp add: getPosts_def split: prod.splits sum.splits)
  then show ?thesis
    by (simp add: getPosts_try_def do_fetch_def split: sum.splits)
qed

lemma getPosts_url_shared:
  "\<exists>P. getPosts_url (opts\<lparr>search := None\<rparr>) = ''https://v2.api.noroff.dev/social/posts?'' @ P
       \<and> getPosts_url opts =
           (if default_to [] (search opts) = []
            then ''https://v2.api.noroff.dev/social/posts?'' @ P
            else ''https://v2.api.noroff.dev/social/posts/search?q=''
                   @ encodeURIComponent (default_to [] (search opts)) @ ''&'' @ P)"
proof -
  let ?P = "''limit='' @ Number_toString (default_to 12 (limit opts))
             @ ''&page='' @ Number_toString (default_to 1 (page opts))
             @ ''&_author=true&_comments=true&_reactions=true''
             @ (if default_to [] (tag opts) = [] then []
                else ''&_tag='' @ form_urlencode (default_to [] (tag opts)))"
  have none: "default_to [] (search (opts\<lparr>search := None\<rparr>)) = []"
    by (simp add: default_to_def)
  have same: "limit (opts\<lparr>search := None\<rparr>) = limit opts"
    "page (opts\<lparr>search := None\<rparr>) = page opts" "tag (opts\<lparr>search := None\<rparr>) = tag opts"
    by simp_all
  have listing: "getPosts_url (opts\<lparr>search := None\<rparr>) = ''https://v2.api.noroff.dev/social/posts?'' @ ?P"
    unfolding getPosts_url_eq [of "opts\<lparr>search := None\<rparr>"] none same
    by (simp only: if_True simp_thms)
  have this_one: "getPosts_url opts =
           (if default_to [] (search opts) = []
            then ''https://v2.api.noroff.dev/social/posts?'' @ ?P
            else ''https://v2.api.noroff.dev/social/posts/search?q=''
                   @ encodeURIComponent (default_to [] (search opts)) @ ''&'' @ ?P)"
    by (rule getPosts_url_eq)
  from listing this_one show ?thesis by blast
qed

text \<open>
  Claim C6. Every \<open>getPosts\<close> call issues one GET request. With a non-empty search query its
  URL is the posts path followed by \<open>/search\<close>, with the encoded query as parameter \<open>q\<close>
  and then the very query string of the listing URL of the same call without the search;
  with an empty or missing search query it is the plain listing URL. For \<open>limit\<close> and
  \<open>page\<close> in the safe-integer range that query string is \<open>limit\<close> and \<open>page\<close> in decimal
  digits, the three fixed parameters and, for a non-empty tag, the encoded tag.
\<close>

theorem getPosts_search_endpoint:
  "requests (snd (getPosts env opts w)) =
     requests w @ [\<lparr>req_url = getPosts_url opts, req_method = ''GET'',
                    req_headers = getAuthHeaders w, req_body = None\<rparr>]
   \<and> (\<exists>P. getPosts_url (opts\<lparr>search := None\<rparr>) = ''https://v2.api.noroff.dev/social/posts?'' @ P
          \<and> getPosts_url opts =
              (if default_to [] (search opts) = []
               then ''https://v2.api.noroff.dev/social/posts?'' @ P
               else ''https://v2.api.noroff.dev/social/posts/search?q=''
                      @ encodeURIComponent (default_to [] (search opts)) @ ''&'' @ P))
   \<and> (isSafeInteger (default_to 12 (limit opts)) \<and> isSafeInteger (default_to 1 (page opts)) \<longrightarrow>
        getPosts_url opts =
          (if default_to [] (search opts) = []
           then ''https://v2.api.noroff.dev/social/posts?''
                  @ ''limit='' @ Number_toString (default_to 12 (limit opts))
                  @ ''&page='' @ Number_toString (default_to 1 (page opts))
                  @ ''&_author=true&_comments=true&_reactions=true''
                  @ (if default_to [] (tag opts) = [] then []
                     else ''&_tag='' @ form_urlencode (default_to [] (tag opts)))
           else ''https://v2.api.noroff.dev/social/posts/search?q=''
                  @ encodeURIComponent (default_to [] (search opts)) @ ''&''
                  @ ''limit='' @ Number_toString (default_to 12 (limit opts))
                  @ ''&page='' @ Number_toString (default_to 1 (page opts))
                  @ ''&_author=true&_comments=true&_reactions=true''
                  @ (if default_to [] (tag opts) = [] then []
                     else ''&_tag='' @ form_urlencode (default_to [] (tag opts)))))"
  using getPosts_requests [of env opts w] getPosts_url_shared [of opts] getPosts_url_eq [of opts]
  by (intro conjI impI)

theorem getPosts_search_endpoint_witness:
  "getPosts_url \<lparr>limit = None, page = None, tag = None, search = Some ''cats''\<rparr>
     = ''https://v2.api.noroff.dev/social/posts/search?q=cats&limit=12&page=1&_author=true&_comments=true&_reactions=true''
   \<and> getPosts_url \<lparr>limit = Some 5, page = Some 2, tag = None, search = None\<rparr>
     = ''https://v2.api.noroff.dev/social/posts?limit=5&page=2&_author=true&_comments=true&_reactions=true''"
proof -
  let ?env = "test_platform (Inl (TypeError [])) (Inl (TypeError []))"
  let ?o1 = "\<lparr>limit = None, page = None, tag = None, search = Some ''cats''\<rparr>"
  let ?o2 = "\<lparr>limit = Some 5, page = Some 2, tag = None, search = None\<rparr>"
  have n: "Number_toString 12 = ''12''" "Number_toString 1 = ''1''"
    "Number_toString 5 = ''5''" "Number_toString 2 = ''2''"
    by code_simp+
  have q: "encodeURIComponent ''cats'' = ''cats''"
    by code_simp
  have ne: "(''cats'' = []) = False"
    by simp
  have safe1: "isSafeInteger (default_to 12 (limit ?o1)) \<and> isSafeInteger (default_to 1 (page ?o1))"
    by (simp add: isSafeInteger_def default_to_def)
  have safe2: "isSafeInteger (default_to 12 (limit ?o2)) \<and> isSafeInteger (default_to 1 (page ?o2))"
    by (simp add: isSafeInteger_def default_to_def)
  note search = getPosts_search_endpoint
      [of ?env ?o1 "world_of []", THEN conjunct2, THEN conjunct2, THEN mp, OF safe1]
  note plain = getPosts_search_endpoint
      [of ?env ?o2 "world_of []", THEN conjunct2, THEN conjunct2, THEN mp, OF safe2]
  show ?thesis
    unfolding search plain
    by (simp only: default_to_def posts_options.simps option.case n q ne if_True if_False
        simp_thms append.simps)
qed

section \<open>Login and key provisioning\<close>

lemma createApiKey_eq_try: "createApiKey env w = createApiKey_try env w"
  by (simp add: createApiKey_def split: prod.splits sum.splits)







lemma createApiKey_fail_storage:
  "fst (createApiKey env w) = Inl e \<Longrightarrow> localStorage (snd (createApiKey env w)) = localStorage w"
  by (auto simp add: createApiKey_eq_try createApiKey_try_def do_fetch_def
      split: sum.splits if_splits option.splits)

lemma createApiKey_not_ok_fails:
  "fetch env (api_key_request env w) = Inr r \<Longrightarrow> \<not> ok r \<Longrightarrow> \<exists>e. fst (createApiKey env w) = Inl e"
  by (auto simp add: createApiKey_eq_try createApiKey_try_def do_fetch_def
      split: sum.splits if_splits option.splits)

lemma createApiKey_frame:
  "k \<noteq> ''apiKey'' \<Longrightarrow> localStorage (snd (createApiKey env w)) k = localStorage w k"
  by (auto simp add: createApiKey_eq_try createApiKey_try_def do_fetch_def setItem_def
      split: sum.splits if_splits option.splits)

lemma ensureApiKey_fail:
  "fst (ensureApiKey env w) = Inl e \<Longrightarrow>
   \<not> truthy_str (localStorage w ''apiKey'') \<and> fst (createApiKey env w) = Inl e
   \<and> localStorage (snd (ensureApiKey env w)) = localStorage w"
  by (auto simp add: ensureApiKey_def Let_def getItem_def createApiKey_fail_storage
      split: if_splits)

lemma ensureApiKey_frame:
  "k \<noteq> ''apiKey'' \<Longrightarrow> localStorage (snd (ensureApiKey env w)) k = localStorage w k"
  by (simp add: ensureApiKey_def Let_def createApiKey_frame)

lemma login_with_token:
  assumes "fetch env (login_request env c) = Inr r" and "ok r" and "json_result r = Inr data"
    and "get_prop data ''data'' = Inr d" and "opt_prop d ''accessToken'' = Some tok"
    and "truthy (Some tok)"
  shows "login env c w =
           (Inr data,
            snd (ensureApiKey env
              (setItem ''userData'' (stringify_opt env d)
                (setItem ''authToken'' (ToString tok)
                  (w\<lparr>requests := requests w @ [login_request env c]\<rparr>)))))"
  using assms
  by (simp add: login_def login_try_def do_fetch_def Let_def split: prod.splits sum.splits)

lemma login_without_token:
  assumes "fetch env (login_request env c) = Inr r" and "ok r" and "json_result r = Inr data"
    and "get_prop data ''data'' = Inr d" and "\<not> truthy (opt_prop d ''accessToken'')"
  shows "login env c w = (Inr data, w\<lparr>requests := requests w @ [login_request env c]\<rparr>)"
  using assms
  by (cases "opt_prop d ''accessToken''")
     (simp_all add: login_def login_try_def do_fetch_def Let_def)

lemma login_unparsed:
  assumes "fetch env (login_request env c) = Inr r" and "json_result r = Inl e"
  shows "login env c w =
           (Inl (Error (''Login failed: '' @ message e)),
            w\<lparr>requests := requests w @ [login_request env c]\<rparr>)"
  using assms
  by (simp add: login_def login_try_def do_fetch_def)

lemma login_null_body:
  assumes "fetch env (login_request env c) = Inr r" and "ok r" and "json_result r = Inr JNull"
  shows "login env c w =
           (Inl (Error (''Login failed: '' @ message (null_read ''data''))),
            w\<lparr>requests := requests w @ [login_request env c]\<rparr>)"
  using assms
  by (simp add: login_def login_try_def do_fetch_def get_prop_def)

lemma login_auth_js_without_token:
  assumes "fetch env (login_request env c) = Inr r" and "ok r" and "json_result r = Inr data"
    and "get_prop data ''data'' = Inr d" and "\<not> truthy (opt_prop d ''accessToken'')"
  shows "login_auth_js env c w = (Inr data, w\<lparr>requests := requests w @ [login_request env c]\<rparr>)"
  using assms
  by (cases "opt_prop d ''accessToken''")
     (simp_all add: login_auth_js_def login_try_auth_js_def do_fetch_def Let_def)

lemma login_auth_js_unparsed:
  assumes "fetch env (login_request env c) = Inr r" and "json_result r = Inl e"
  shows "login_auth_js env c w =
           (Inl (Error (''Login failed: '' @ message e)),
            w\<lparr>requests := requests w @ [login_request env c]\<rparr>)"
  using assms
  by (simp add: login_auth_js_def login_try_auth_js_def do_fetch_def)

lemma login_auth_js_null_body:
  assumes "fetch env (login_request env c) = Inr r" and "ok r" and "json_result r = Inr JNull"
  shows "login_auth_js env c w =
           (Inl (Error (''Login failed: '' @ message (null_read ''data''))),
            w\<lparr>requests := requests w @ [login_request env c]\<rparr>)"
  using assms
  by (simp add: login_auth_js_def login_try_auth_js_def do_fetch_def get_prop_def)

lemma login_auth_js_with_token:
  assumes "fetch env (login_request env c) = Inr r" and "ok r" and "json_result r = Inr data"
    and "get_prop data ''data'' = Inr d" and "opt_prop d ''accessToken'' = Some tok"
    and "truthy (Some tok)"
  shows "login_auth_js env c w =
           (Inr data,
            createApiKey_auth_js env
              (setItem ''userData'' (stringify_opt env d)
                (setItem ''authToken'' (ToString tok)
                  (w\<lparr>requests := requests w @ [login_request env c]\<rparr>))))"
  using assms
  by (simp add: login_auth_js_def login_try_auth_js_def do_fetch_def Let_def
      split: prod.splits sum.splits)

lemma createApiKey_auth_js_frame:
  "k \<noteq> ''apiKey'' \<Longrightarrow> localStorage (createApiKey_auth_js env w) k = localStorage w k"
  by (auto simp add: createApiKey_auth_js_def createApiKey_try_auth_js_def do_fetch_def setItem_def
      split: sum.splits if_splits option.splits)

lemma createApiKey_auth_js_not_ok:
  "fetch env (api_key_request_auth_js w) = Inr r \<Longrightarrow> \<not> ok r \<Longrightarrow>
   localStorage (createApiKey_auth_js env w) = localStorage w"
  by (auto simp add: createApiKey_auth_js_def createApiKey_try_auth_js_def do_fetch_def
      split: sum.splits if_splits option.splits)

lemma test_platform_login [simp]:
  "fetch (test_platform a b) (login_request env c) = a"
  by (simp add: test_platform_def login_request_def)

lemma test_platform_key [simp]:
  "fetch (test_platform a b) (api_key_request env w) = b"
  by (simp add: test_platform_def api_key_request_def buildApiUrl_def ENDPOINT_LOGIN_def
      ENDPOINT_API_KEY_def)

lemma test_platform_key_auth_js [simp]:
  "fetch (test_platform a b) (api_key_request_auth_js w) = b"
  by (simp add: test_platform_def api_key_request_auth_js_def buildApiUrl_def ENDPOINT_LOGIN_def
      ENDPOINT_API_KEY_def)

lemma isAuthenticated_needs_key:
  "\<not> truthy_str (localStorage w ''apiKey'') \<Longrightarrow> \<not> isAuthenticated w"
  by (cases "localStorage w ''authToken''")
     (simp_all add: isAuthenticated_def getItem_def js_and_def)

lemma createApiKey_auth_js_fail_storage:
  "fst (createApiKey_try_auth_js env w) = Inl e \<Longrightarrow>
   localStorage (createApiKey_auth_js env w) = localStorage w"
  by (auto simp add: createApiKey_auth_js_def createApiKey_try_auth_js_def do_fetch_def
      split: sum.splits if_splits option.splits)

lemma createApiKey_auth_js_not_ok_fails:
  "fetch env (api_key_request_auth_js w) = Inr r \<Longrightarrow> \<not> ok r \<Longrightarrow>
   \<exists>e. fst (createApiKey_try_auth_js env w) = Inl e"
  by (auto simp add: createApiKey_try_auth_js_def do_fetch_def
      split: sum.splits if_splits option.splits)

text \<open>
  Claim C2. For every login call whose token exchange returns a 2xx response with a truthy
  \<open>data.accessToken\<close>, \<open>login\<close> returns the response body, and the token and the user are
  stored when it returns, whatever the key provisioning did; this holds in both versions.
  In the version with \<open>ensureApiKey\<close>, a failing \<open>ensureApiKey\<close> is caught inside \<open>login\<close>,
  leaves the API-key entry as it was before the call, and \<open>isAuthenticated()\<close> is false
  afterwards. In the version of \<open>js/api/auth.js\<close>, \<open>createApiKey\<close> catches its own failure,
  and with no key stored before the call \<open>isAuthenticated()\<close> is false afterwards. In both,
  a key endpoint that answers with a non-2xx status such as 500 is such a failure.
  By the equivalence of claim C1, \<open>isAuthenticated()\<close> stays false as long as no non-empty
  key is stored.
\<close>

theorem login_succeeds_when_key_provisioning_fails:
  assumes "fetch env (login_request env c) = Inr r" and "ok r" and "json_result r = Inr data"
    and "get_prop data ''data'' = Inr (Some user)"
    and "opt_prop (Some user) ''accessToken'' = Some tok" and "truthy (Some tok)"
    and w3: "w3 = setItem ''userData'' (JSON_stringify env user)
                    (setItem ''authToken'' (ToString tok)
                      (w\<lparr>requests := requests w @ [login_request env c]\<rparr>))"
  shows "login env c w = (Inr data, snd (ensureApiKey env w3))
    \<and> localStorage (snd (login env c w)) ''authToken'' = Some (ToString tok)
    \<and> localStorage (snd (login env c w)) ''userData'' = Some (JSON_stringify env user)
    \<and> (fst (ensureApiKey env w3) = Inl e \<longrightarrow>
         localStorage (snd (login env c w)) ''apiKey'' = localStorage w ''apiKey''
         \<and> \<not> isAuthenticated (snd (login env c w)))
    \<and> (\<not> truthy_str (localStorage w ''apiKey'') \<and> fetch env (api_key_request env w3) = Inr r2
         \<and> \<not> ok r2 \<longrightarrow>
         (\<exists>e'. fst (ensureApiKey env w3) = Inl e') \<and> \<not> isAuthenticated (snd (login env c w)))
    \<and> login_auth_js env c w = (Inr data, createApiKey_auth_js env w3)
    \<and> localStorage (snd (login_auth_js env c w)) ''authToken'' = Some (ToString tok)
    \<and> localStorage (snd (login_auth_js env c w)) ''userData'' = Some (JSON_stringify env user)
    \<and> (\<not> truthy_str (localStorage w ''apiKey'') \<and> fst (createApiKey_try_auth_js env w3) = Inl e \<longrightarrow>
         localStorage (snd (login_auth_js env c w)) ''apiKey'' = localStorage w ''apiKey''
         \<and> \<not> isAuthenticated (snd (login_auth_js env c w)))
    \<and> (\<not> truthy_str (localStorage w ''apiKey'') \<and> fetch env (api_key_request_auth_js w3) = Inr r2
         \<and> \<not> ok r2 \<longrightarrow>
         (\<exists>e'. fst (createApiKey_try_auth_js env w3) = Inl e')
         \<and> \<not> isAuthenticated (snd (login_auth_js env c w)))"
proof -
  have res: "login env c w = (Inr data, snd (ensureApiKey env w3))"
    using login_with_token [OF assms(1-6), of w] by (simp add: w3 stringify_opt_def)
  have res': "login_auth_js env c w = (Inr data, createApiKey_auth_js env w3)"
    using login_auth_js_with_token [OF assms(1-6), of w] by (simp add: w3 stringify_opt_def)
  have tok3: "localStorage w3 ''authToken'' = Some (ToString tok)"
    and usr3: "localStorage w3 ''userData'' = Some (JSON_stringify env user)"
    and key3: "localStorage w3 ''apiKey'' = localStorage w ''apiKey''"
    by (simp_all add: w3 setItem_def)
  have tok: "localStorage (snd (ensureApiKey env w3)) ''authToken'' = Some (ToString tok)"
    and usr: "localStorage (snd (ensureApiKey env w3)) ''userData'' = Some (JSON_stringify env user)"
    by (simp_all add: ensureApiKey_frame tok3 usr3)
  have tok': "localStorage (createApiKey_auth_js env w3) ''authToken'' = Some (ToString tok)"
    and usr': "localStorage (createApiKey_auth_js env w3) ''userData'' = Some (JSON_stringify env user)"
    by (simp_all add: createApiKey_auth_js_frame tok3 usr3)
  have fails: "localStorage (snd (ensureApiKey env w3)) ''apiKey'' = localStorage w ''apiKey''
                 \<and> \<not> isAuthenticated (snd (ensureApiKey env w3))"
    if "fst (ensureApiKey env w3) = Inl x" for x
  proof -
    from ensureApiKey_fail [OF that]
    have nokey: "\<not> truthy_str (localStorage w3 ''apiKey'')"
      and same: "localStorage (snd (ensureApiKey env w3)) = localStorage w3"
      by simp_all
    from nokey same have "\<not> truthy_str (localStorage (snd (ensureApiKey env w3)) ''apiKey'')"
      by simp
    then have "\<not> isAuthenticated (snd (ensureApiKey env w3))"
      by (rule isAuthenticated_needs_key)
    with same key3 show ?thesis by simp
  qed
  have not_ok: "(\<exists>e'. fst (ensureApiKey env w3) = Inl e')"
    if "\<not> truthy_str (localStorage w ''apiKey'')" and "fetch env (api_key_request env w3) = Inr r2"
      and "\<not> ok r2"
  proof -
    from createApiKey_not_ok_fails [OF that(2,3)]
    obtain e' where "fst (createApiKey env w3) = Inl e'" by blast
    then have "fst (ensureApiKey env w3) = Inl e'"
      using that(1) key3 by (simp add: ensureApiKey_def Let_def getItem_def)
    then show ?thesis by blast
  qed
  have fails': "localStorage (createApiKey_auth_js env w3) ''apiKey'' = localStorage w ''apiKey''
                 \<and> \<not> isAuthenticated (createApiKey_auth_js env w3)"
    if "\<not> truthy_str (localStorage w ''apiKey'')" and "fst (createApiKey_try_auth_js env w3) = Inl x"
    for x
  proof -
    from createApiKey_auth_js_fail_storage [OF that(2)]
    have same: "localStorage (createApiKey_auth_js env w3) = localStorage w3" .
    with that(1) key3 have "\<not> truthy_str (localStorage (createApiKey_auth_js env w3) ''apiKey'')"
      by simp
    then have "\<not> isAuthenticated (createApiKey_auth_js env w3)"
      by (rule isAuthenticated_needs_key)
    with same key3 show ?thesis by simp
  qed
  have not_ok': "(\<exists>e'. fst (createApiKey_try_auth_js env w3) = Inl e')"
    if "fetch env (api_key_request_auth_js w3) = Inr r2" and "\<not> ok r2"
    using createApiKey_auth_js_not_ok_fails [OF that] .
  show ?thesis
    unfolding res res' snd_conv
    using tok usr tok' usr' fails not_ok fails' not_ok' by blast
qed


theorem login_succeeds_when_key_provisioning_fails_witness:
  "fst (login (test_platform (Inr \<lparr>status = 200, json_result = Inr demo_login_body\<rparr>)
                             (Inr \<lparr>status = 500, json_result = Inr demo_error_body\<rparr>))
          demo_credentials (world_of [])) = Inr demo_login_body
   \<and> localStorage
        (snd (login (test_platform (Inr \<lparr>status = 200, json_result = Inr demo_login_body\<rparr>)
                                   (Inr \<lparr>status = 500, json_result = Inr demo_error_body\<rparr>))
               demo_credentials (world_of []))) ''authToken'' = Some ''jwt''
   \<and> \<not> isAuthenticated
        (snd (login (test_platform (Inr \<lparr>status = 200, json_result = Inr demo_login_body\<rparr>)
                                   (Inr \<lparr>status = 500, json_result = Inr demo_error_body\<rparr>))
               demo_credentials (world_of [])))
   \<and> fst (login_auth_js (test_platform (Inr \<lparr>status = 200, json_result = Inr demo_login_body\<rparr>)
                                       (Inr \<lparr>status = 500, json_result = Inr demo_error_body\<rparr>))
            demo_credentials (world_of [])) = Inr demo_login_body
   \<and> \<not> isAuthenticated
        (snd (login_auth_js (test_platform (Inr \<lparr>status = 200, json_result = Inr demo_login_body\<rparr>)
                                           (Inr \<lparr>status = 500, json_result = Inr demo_error_body\<rparr>))
               demo_credentials (world_of [])))"
proof -
  let ?r = "\<lparr>status = 200, json_result = Inr demo_login_body\<rparr>"
  let ?r2 = "\<lparr>status = 500, json_result = Inr demo_error_body\<rparr>"
  let ?env = "test_platform (Inr ?r) (Inr ?r2)"
  let ?user = "JObj [(''name'', JStr ''ola''), (''email'', JStr ''ola@stud.noroff.no''),
                     (''accessToken'', JStr ''jwt'')]"
  let ?w3 = "setItem ''userData'' (JSON_stringify ?env ?user)
               (setItem ''authToken'' (ToString (JStr ''jwt''))
                 ((world_of [])\<lparr>requests := requests (world_of []) @ [login_request ?env demo_credentials]\<rparr>))"
  have 1: "fetch ?env (login_request ?env demo_credentials) = Inr ?r" by simp
  have 2: "ok ?r" by (simp add: ok_def)
  have 3: "json_result ?r = Inr demo_login_body" by simp
  have 4: "get_prop demo_login_body ''data'' = Inr (Some ?user)"
    by (simp add: get_prop_def demo_login_body_def)
  have 5: "opt_prop (Some ?user) ''accessToken'' = Some (JStr ''jwt'')"
    by (simp add: opt_prop_def)
  have 6: "truthy (Some (JStr ''jwt''))" by simp
  have 7: "\<not> truthy_str (localStorage (world_of []) ''apiKey'')"
    by (simp add: world_of_def)
  have 8: "fetch ?env (api_key_request ?env ?w3) = Inr ?r2" by simp
  have k8: "fetch ?env (api_key_request_auth_js ?w3) = Inr ?r2" by simp
  have 9: "\<not> ok ?r2" by (simp add: ok_def)
  note T = login_succeeds_when_key_provisioning_fails
             [OF 1 2 3 4 5 6 refl, where w = "world_of []" and e = "Error []" and ?r2.0 = ?r2]
  from T have a: "login ?env demo_credentials (world_of []) = (Inr demo_login_body, snd (ensureApiKey ?env ?w3))"
    by (rule conjunct1)
  from T have b: "localStorage (snd (login ?env demo_credentials (world_of []))) ''authToken''
                    = Some (ToString (JStr ''jwt''))"
    by (elim conjE)
  from T have "\<not> truthy_str (localStorage (world_of []) ''apiKey'')
                 \<and> fetch ?env (api_key_request ?env ?w3) = Inr ?r2 \<and> \<not> ok ?r2 \<longrightarrow>
               (\<exists>e'. fst (ensureApiKey ?env ?w3) = Inl e')
                 \<and> \<not> isAuthenticated (snd (login ?env demo_credentials (world_of [])))"
    by (elim conjE)
  with 7 8 9 have c: "\<not> isAuthenticated (snd (login ?env demo_credentials (world_of [])))"
    by blast
  from T have d: "login_auth_js ?env demo_credentials (world_of [])
                    = (Inr demo_login_body, createApiKey_auth_js ?env ?w3)"
    by (elim conjE)
  from T have "\<not> truthy_str (localStorage (world_of []) ''apiKey'')
                 \<and> fetch ?env (api_key_request_auth_js ?w3) = Inr ?r2 \<and> \<not> ok ?r2 \<longrightarrow>
               (\<exists>e'. fst (createApiKey_try_auth_js ?env ?w3) = Inl e')
                 \<and> \<not> isAuthenticated (snd (login_auth_js ?env demo_credentials (world_of [])))"
    by (elim conjE)
  with 7 k8 9 have e: "\<not> isAuthenticated (snd (login_auth_js ?env demo_credentials (world_of [])))"
    by blast
  from a have a': "fst (login ?env demo_credentials (world_of [])) = Inr demo_login_body"
    by simp
  from b have b': "localStorage (snd (login ?env demo_credentials (world_of []))) ''authToken'' = Some ''jwt''"
    by simp
  from d have d': "fst (login_auth_js ?env demo_credentials (world_of [])) = Inr demo_login_body"
    by simp
  from a' b' c d' e show ?thesis by (intro conjI)
qed














text \<open>
  Claim C10, as the code has it. When the login request returns a 2xx response without a
  truthy \<open>data.accessToken\<close>, nothing is written to storage, the login request is the only
  request issued (no key provisioning), and \<open>isAuthenticated()\<close> is what it was before, in
  both versions of \<open>login\<close>. If the body is a JSON value other than \<open>null\<close>, \<open>login\<close>
  returns it normally; if the body is \<open>null\<close> or does not parse, \<open>login\<close> throws
  \<open>Login failed: ...\<close>.
\<close>

theorem login_without_token_writes_nothing:
  assumes "fetch env (login_request env c) = Inr r" and "ok r"
    and w1: "w1 = w\<lparr>requests := requests w @ [login_request env c]\<rparr>"
  shows
   "(json_result r = Inr data \<and> get_prop data ''data'' = Inr d
       \<and> \<not> truthy (opt_prop d ''accessToken'') \<longrightarrow>
       login env c w = (Inr data, w1) \<and> login_auth_js env c w = (Inr data, w1))
    \<and> (json_result r = Inr JNull \<longrightarrow>
         login env c w = (Inl (Error (''Login failed: '' @ message (null_read ''data''))), w1)
         \<and> login_auth_js env c w = (Inl (Error (''Login failed: '' @ message (null_read ''data''))), w1))
    \<and> (json_result r = Inl e \<longrightarrow>
         login env c w = (Inl (Error (''Login failed: '' @ message e)), w1)
         \<and> login_auth_js env c w = (Inl (Error (''Login failed: '' @ message e)), w1))
    \<and> localStorage w1 = localStorage w
    \<and> isAuthenticated w1 = isAuthenticated w"
proof -
  have "localStorage w1 = localStorage w"
    by (simp add: w1)
  moreover have "isAuthenticated w1 = isAuthenticated w"
    by (simp add: w1 isAuthenticated_def getItem_def)
  ultimately show ?thesis
    unfolding w1
    using login_without_token [OF assms(1,2), of data d w]
      login_auth_js_without_token [OF assms(1,2), of data d w]
      login_null_body [OF assms(1,2), of w] login_auth_js_null_body [OF assms(1,2), of w]
      login_unparsed [OF assms(1), of e w] login_auth_js_unparsed [OF assms(1), of e w]
    by blast
qed

theorem login_without_token_writes_nothing_witness:
  "login (test_platform (Inr \<lparr>status = 200, json_result = Inr (JObj [(''data'', JObj [])])\<rparr>)
                        (Inl (TypeError ''Failed to fetch'')))
         demo_credentials (world_of [])
     = (Inr (JObj [(''data'', JObj [])]),
        (world_of [])\<lparr>requests := requests (world_of []) @
           [login_request (test_platform (Inr \<lparr>status = 200, json_result = Inr (JObj [(''data'', JObj [])])\<rparr>)
                             (Inl (TypeError ''Failed to fetch''))) demo_credentials]\<rparr>)"
proof -
  let ?r = "\<lparr>status = 200, json_result = Inr (JObj [(''data'', JObj [])])\<rparr>"
  let ?env = "test_platform (Inr ?r) (Inl (TypeError ''Failed to fetch''))"
  have 1: "fetch ?env (login_request ?env demo_credentials) = Inr ?r" by simp
  have 2: "ok ?r" by (simp add: ok_def)
  have 3: "json_result ?r = Inr (JObj [(''data'', JObj [])])" by simp
  have 4: "get_prop (JObj [(''data'', JObj [])]) ''data'' = Inr (Some (JObj []))"
    by (simp add: get_prop_def)
  have 5: "\<not> truthy (opt_prop (Some (JObj [])) ''accessToken'')"
    by (simp add: opt_prop_def)
  from login_without_token_writes_nothing
         [OF 1 2 refl, where w = "world_of []" and data = "JObj [(''data'', JObj [])]"
            and d = "Some (JObj [])" and e = "Error []"]
  have "json_result ?r = Inr (JObj [(''data'', JObj [])])
          \<and> get_prop (JObj [(''data'', JObj [])]) ''data'' = Inr (Some (JObj []))
          \<and> \<not> truthy (opt_prop (Some (JObj [])) ''accessToken'') \<longrightarrow>
        login ?env demo_credentials (world_of [])
          = (Inr (JObj [(''data'', JObj [])]),
             (world_of [])\<lparr>requests := requests (world_of []) @ [login_request ?env demo_credentials]\<rparr>)
        \<and> login_auth_js ?env demo_credentials (world_of [])
          = (Inr (JObj [(''data'', JObj [])]),
             (world_of [])\<lparr>requests := requests (world_of []) @ [login_request ?env demo_credentials]\<rparr>)"
    by (rule conjunct1)
  with 3 4 5 show ?thesis by blast
qed

text \<open>
  The claim as stated (login returns normally on every 2xx response without an access
  token) fails on a 204 response with an empty body, and on a 200 response whose body is
  \<open>null\<close>: \<open>login\<close> throws.
\<close>

theorem login_empty_body_counterexample:
  "fst (login (test_platform
                 (Inr \<lparr>status = 204, json_result = Inl (SyntaxError ''Unexpected end of JSON input'')\<rparr>)
                 (Inl (TypeError ''Failed to fetch'')))
          demo_credentials (world_of []))
     = Inl (Error ''Login failed: Unexpected end of JSON input'')
   \<and> fst (login (test_platform (Inr \<lparr>status = 200, json_result = Inr JNull\<rparr>)
                                (Inl (TypeError ''Failed to fetch'')))
            demo_credentials (world_of []))
     = Inl (Error (''Login failed: Cannot read properties of null (reading '' @ [CHR 0x27] @ ''data''
                     @ [CHR 0x27] @ '')''))"
proof -
  have a: "fst (login (test_platform
                 (Inr \<lparr>status = 204, json_result = Inl (SyntaxError ''Unexpected end of JSON input'')\<rparr>) k)
             c w) = Inl (Error ''Login failed: Unexpected end of JSON input'')" for k c w
    by (simp add: login_unparsed)
  have b: "fst (login (test_platform (Inr \<lparr>status = 200, json_result = Inr JNull\<rparr>) k) c w)
             = Inl (Error (''Login failed: Cannot read properties of null (reading '' @ [CHR 0x27]
                             @ ''data'' @ [CHR 0x27] @ '')''))" for k c w
    by (simp add: login_null_body ok_def null_read_def)
  from a b show ?thesis by (intro conjI)
qed

end
